theory Spec2Isabelle
  imports Complex_Main "HOL-Library.Sublist"
begin

section \<open>JavaScript values used by StatsPanel.ts\<close>

text \<open>
  A JavaScript number is an IEEE-754 double. A finite double is modelled by its exact
  rational value, next to the three non-finite values; the negative zero is identified
  with zero. \<^verbatim>\<open>Math.ceil\<close> and the comparison with zero are exact on doubles. The one
  product of the file, \<^verbatim>\<open>currentRoundTripTime * 1000\<close>, is rounded to the nearest double as
  the double multiplication does.
\<close>

datatype number = Finite rat | NaN | PosInfinity | NegInfinity

text \<open>The test \<^verbatim>\<open>if (x)\<close> on a number: zero and NaN are falsy.\<close>

fun truthy :: "number \<Rightarrow> bool" where
  "truthy (Finite q) = (q \<noteq> 0)"
| "truthy NaN = False"
| "truthy PosInfinity = True"
| "truthy NegInfinity = True"

text \<open>The comparison \<^verbatim>\<open>x > 0\<close>: false on NaN.\<close>

fun greater_zero :: "number \<Rightarrow> bool" where
  "greater_zero (Finite q) = (0 < q)"
| "greater_zero NaN = False"
| "greater_zero PosInfinity = True"
| "greater_zero NegInfinity = False"

text \<open>\<^verbatim>\<open>Math.ceil(x)\<close>.\<close>

fun Math_ceil :: "number \<Rightarrow> number" where
  "Math_ceil (Finite q) = Finite (of_int \<lceil>q\<rceil>)"
| "Math_ceil NaN = NaN"
| "Math_ceil PosInfinity = PosInfinity"
| "Math_ceil NegInfinity = NegInfinity"

text \<open>
  Rounding to the nearest double, ties to even. A double is \<open>m * 2^s\<close> with an integer
  \<open>m\<close> below \<open>2^53\<close> and \<open>s\<close> at least \<open>-1074\<close>; the largest is below \<open>2^1024\<close>.
  \<open>bitlength\<close> is the number of binary digits of a positive integer, \<open>pow2\<close> a power of
  two with an integer exponent, and \<open>floor_log2 q\<close> the exponent \<open>e\<close> with
  \<open>2^e \<le> q < 2^(e + 1)\<close> for a positive \<open>q\<close>.
\<close>

function bitlength :: "int \<Rightarrow> int" where
  "bitlength a = (if a \<le> 0 then 0 else 1 + bitlength (a div 2))"
  by pat_completeness auto
termination
  by (relation "measure nat") auto

declare bitlength.simps [simp del]

definition pow2 :: "int \<Rightarrow> rat" where
  "pow2 k = (if 0 \<le> k then of_int (2 ^ nat k) else 1 / of_int (2 ^ nat (- k)))"

definition floor_log2 :: "rat \<Rightarrow> int" where
  "floor_log2 q =
     (let d = bitlength (fst (quotient_of q)) - bitlength (snd (quotient_of q))
      in if pow2 d \<le> q then d else d - 1)"

definition round_half_even :: "rat \<Rightarrow> int" where
  "round_half_even x =
     (let f = \<lfloor>x\<rfloor>; r = x - of_int f
      in if r < 1 / 2 then f else if 1 / 2 < r then f + 1 else if even f then f else f + 1)"

text \<open>
  The double nearest to a rational: the value of a decimal literal, and the result of an
  arithmetic operation whose exact result is that rational. The exact value is rounded
  to 53 significant bits, or to a multiple of \<open>2^-1074\<close> when it is smaller than
  \<open>2^-1022\<close>, and a rounded value of \<open>2^1024\<close> or more is an infinity.
\<close>

definition double_of_rat :: "rat \<Rightarrow> number" where
  "double_of_rat q =
     (if q = 0 then Finite 0
      else
        let e = floor_log2 \<bar>q\<bar>;
            s = max (e - 52) (- 1074);
            m = round_half_even (\<bar>q\<bar> / pow2 s);
            r = of_int m * pow2 s
        in if pow2 1024 \<le> r then (if 0 < q then PosInfinity else NegInfinity)
           else Finite (if 0 < q then r else - r))"

text \<open>\<^verbatim>\<open>x * 1000\<close>: the exact product, rounded to the nearest double.\<close>

fun times1000 :: "number \<Rightarrow> number" where
  "times1000 (Finite q) = double_of_rat (q * 1000)"
| "times1000 NaN = NaN"
| "times1000 PosInfinity = PosInfinity"
| "times1000 NegInfinity = NegInfinity"

text \<open>
  The functions StatsPanel.ts takes from elsewhere: \<^verbatim>\<open>MathUtils.formatBytes\<close> (imported from
  ../Util/MathUtils), the \<^verbatim>\<open>format\<close> method of the \<^verbatim>\<open>Intl.NumberFormat\<close> built in
  \<^verbatim>\<open>handleStats\<close>, \<^verbatim>\<open>AggregatedStats.isNumber\<close> (frontend library), and the digits that
  \<^verbatim>\<open>Number.prototype.toString\<close> prints for a finite number that is not a safe integer
  (the shortest digits that read back as the same double). They are parameters of the model.
\<close>

record Externals =
  formatBytes :: "number option \<Rightarrow> nat \<Rightarrow> string"
  numberFormat :: "number \<Rightarrow> string"
  isNumber :: "number \<Rightarrow> bool"
  toStringInexact :: "rat \<Rightarrow> string"

text \<open>Decimal digits of an integer.\<close>

fun nat_digits :: "nat \<Rightarrow> string" where
  "nat_digits n =
     (if n < 10 then [''0123456789'' ! n]
      else nat_digits (n div 10) @ [''0123456789'' ! (n mod 10)])"

declare nat_digits.simps [simp del]

definition int_digits :: "int \<Rightarrow> string" where
  "int_digits i = (if i < 0 then ''-'' @ nat_digits (nat (- i)) else nat_digits (nat i))"

text \<open>\<^verbatim>\<open>Number.isSafeInteger\<close> on a finite value: an integer of magnitude at most 2^53 - 1.\<close>

definition isSafeInteger :: "rat \<Rightarrow> bool" where
  "isSafeInteger q = (of_int \<lfloor>q\<rfloor> = q \<and> \<bar>q\<bar> \<le> 9007199254740991)"

text \<open>
  \<^verbatim>\<open>x.toString()\<close> on a number: a safe integer prints as its decimal digits; the
  non-finite values print as their names.
\<close>

fun Number_toString :: "Externals \<Rightarrow> number \<Rightarrow> string" where
  "Number_toString ext (Finite q) =
     (if isSafeInteger q then int_digits \<lfloor>q\<rfloor> else toStringInexact ext q)"
| "Number_toString ext NaN = ''NaN''"
| "Number_toString ext PosInfinity = ''Infinity''"
| "Number_toString ext NegInfinity = ''-Infinity''"

text \<open>
  \<^verbatim>\<open>s.replace(pat, rep)\<close> with a string pattern: the first occurrence of \<open>pat\<close> in
  \<open>s\<close>, wherever it is, is replaced; a string without the pattern is returned as it is.
\<close>

fun String_replace :: "string \<Rightarrow> string \<Rightarrow> string \<Rightarrow> string" where
  "String_replace pat rep [] = (if pat = [] then rep else [])"
| "String_replace pat rep (c # s) =
     (if take (length pat) (c # s) = pat then rep @ drop (length pat) (c # s)
      else c # String_replace pat rep s)"

text \<open>
  A value interpolated into a template literal; \<open>None\<close> is \<^verbatim>\<open>undefined\<close>, which
  prints as the word.
\<close>

fun interpolate :: "string option \<Rightarrow> string" where
  "interpolate None = ''undefined''"
| "interpolate (Some s) = s"

section \<open>An insertion-ordered Map\<close>

text \<open>
  A JavaScript \<^verbatim>\<open>Map\<close> iterates in the order in which its keys were first set. It is an
  association list: \<^verbatim>\<open>has\<close> and \<^verbatim>\<open>get\<close> look a key up, \<^verbatim>\<open>set\<close> replaces the value of
  a key in place or appends a new key at the end.
\<close>

definition Map_has :: "('k \<times> 'v) list \<Rightarrow> 'k \<Rightarrow> bool" where
  "Map_has m k = (k \<in> set (map fst m))"

definition Map_get :: "('k \<times> 'v) list \<Rightarrow> 'k \<Rightarrow> 'v option" where
  "Map_get m k = map_of m k"

fun Map_set :: "('k \<times> 'v) list \<Rightarrow> 'k \<Rightarrow> 'v \<Rightarrow> ('k \<times> 'v) list" where
  "Map_set [] k v = [(k, v)]"
| "Map_set ((k', v') # m) k v =
     (if k' = k then (k, v) # m else (k', v') # Map_set m k v)"

section \<open>The data of StatsPanel.ts\<close>

text \<open>
  An element of the page, as far as this file uses one: the text last assigned to its
  \<^verbatim>\<open>innerHTML\<close>.
\<close>

record HTMLElement =
  innerHTML :: string

text \<open>
  The class \<^verbatim>\<open>Stat\<close>. The field \<^verbatim>\<open>id\<close> is named \<open>stat_id\<close> here. The field
  \<^verbatim>\<open>stat\<close> holds what the caller passed, which is \<^verbatim>\<open>undefined\<close> (\<open>None\<close>) when
  \<^verbatim>\<open>handleStats\<close> passes an absent \<^verbatim>\<open>framesDropped\<close>.
\<close>

record Stat =
  stat_id :: string
  title :: string
  stat :: "string option"
  element :: HTMLElement

datatype StatsSections = SessionStats | LatencyTest | DataChannelLatencyTest

text \<open>
  Modelled from the spec: \<^verbatim>\<open>StatsPanelConfiguration\<close> and \<^verbatim>\<open>isSectionEnabled\<close> are
  imported from ./UIConfigurationTypes. The configuration is the set of enabled
  sections and the gate is a pure lookup in it.
\<close>

type_synonym StatsPanelConfiguration = "StatsSections set"

definition isSectionEnabled :: "StatsPanelConfiguration \<Rightarrow> StatsSections \<Rightarrow> bool" where
  "isSectionEnabled cfg section = (section \<in> cfg)"

text \<open>
  The state of a \<^verbatim>\<open>StatsPanel\<close> that the handlers read and write: the configuration
  (\<^verbatim>\<open>_config\<close>), the map of stats, and the children of the \<^verbatim>\<open>statsResult\<close> element
  in the order they were appended. A child is the element of one stat; it is recorded by
  the id of that stat.
\<close>

record StatsPanel =
  config :: StatsPanelConfiguration
  statsMap :: "(string \<times> Stat) list"
  statsResult :: "string list"

text \<open>The constructor: the map starts empty.\<close>

definition StatsPanel_new :: "StatsPanelConfiguration \<Rightarrow> StatsPanel" where
  "StatsPanel_new cfg = \<lparr>config = cfg, statsMap = [], statsResult = []\<rparr>"

section \<open>addOrUpdateStat\<close>

definition addOrUpdateStat :: "string \<Rightarrow> string \<Rightarrow> string option \<Rightarrow> StatsPanel \<Rightarrow> StatsPanel" where
  "addOrUpdateStat i statLabel st p =
     (if \<not> isSectionEnabled (config p) SessionStats then p
      else
        let statHTML = statLabel @ '': '' @ interpolate st in
        if \<not> Map_has (statsMap p) i then
          let newStat = \<lparr>stat_id = i, title = statLabel, stat = st,
                         element = \<lparr>innerHTML = statHTML\<rparr>\<rparr>
          in p\<lparr>statsResult := statsResult p @ [i],
               statsMap := Map_set (statsMap p) i newStat\<rparr>
        else
          (case Map_get (statsMap p) i of
             None \<Rightarrow> p
           | Some val \<Rightarrow>
               p\<lparr>statsMap :=
                    Map_set (statsMap p) i
                      (val\<lparr>element := (element val)\<lparr>innerHTML := statHTML\<rparr>\<rparr>)\<rparr>))"

text \<open>
  A handler is a fixed sequence of calls of \<^verbatim>\<open>addOrUpdateStat\<close>, some of them under a
  condition on the input. Each call is the triple of its arguments; the handler runs its
  calls from first to last.
\<close>

type_synonym call = "string \<times> string \<times> string option"

definition run_calls :: "StatsPanel \<Rightarrow> call list \<Rightarrow> StatsPanel" where
  "run_calls p cs = foldl (\<lambda>q (i, statLabel, st). addOrUpdateStat i statLabel st q) p cs"

text \<open>A call that is made only when its condition holds.\<close>

definition when_call :: "bool \<Rightarrow> call \<Rightarrow> call list" where
  "when_call b c = (if b then [c] else [])"

section \<open>handlePlayerCount\<close>

definition handlePlayerCount :: "Externals \<Rightarrow> number \<Rightarrow> StatsPanel \<Rightarrow> StatsPanel" where
  "handlePlayerCount ext playerCount p =
     addOrUpdateStat ''PlayerCountStat'' ''Players'' (Some (Number_toString ext playerCount)) p"

section \<open>handleStats\<close>

text \<open>
  The parts of an \<^verbatim>\<open>AggregatedStats\<close> that \<^verbatim>\<open>handleStats\<close> reads. A field is
  \<open>None\<close> when the object has no such property (it reads as \<^verbatim>\<open>undefined\<close> and
  \<^verbatim>\<open>hasOwnProperty\<close> is false); a property that is there holds a value of its declared
  type. \<open>activeCandidatePair\<close> is what \<^verbatim>\<open>getActiveCandidatePair()\<close> returns, \<open>None\<close>
  for \<^verbatim>\<open>null\<close> or \<^verbatim>\<open>undefined\<close>.
\<close>

record InboundVideoStats =
  bytesReceived :: "number option"
  packetsLost :: "number option"
  bitrate :: "number option"
  frameWidth :: "number option"
  frameHeight :: "number option"
  framesDecoded :: "number option"
  framesPerSecond :: "number option"
  framesDropped :: "number option"
  codecId :: "string option"

record InboundAudioStats =
  bitrate :: "number option"
  codecId :: "string option"

record CodecStats =
  mimeType :: string

record CandidatePairStats =
  currentRoundTripTime :: "number option"

record SessionStatsFields =
  runTime :: "string option"
  controlsStreamInput :: "string option"
  videoEncoderAvgQP :: "number option"

record AggregatedStats =
  inboundVideoStats :: InboundVideoStats
  inboundAudioStats :: InboundAudioStats
  codecs :: "(string \<times> CodecStats) list"
  activeCandidatePair :: "CandidatePairStats option"
  sessionStats :: SessionStatsFields

text \<open>
  Modelled from the spec: the class \<^verbatim>\<open>CandidatePairStats\<close> is declared in the frontend
  library. A pair made by \<^verbatim>\<open>new CandidatePairStats()\<close> is the empty pair: it carries no
  round-trip time.
\<close>

definition CandidatePairStats_new :: CandidatePairStats where
  "CandidatePairStats_new = \<lparr>currentRoundTripTime = None\<rparr>"

text \<open>The constants computed by \<^verbatim>\<open>handleStats\<close> before the calls that show them.\<close>

definition packetsLostStat :: "Externals \<Rightarrow> AggregatedStats \<Rightarrow> string" where
  "packetsLostStat ext stats =
     (case packetsLost (inboundVideoStats stats) of
        Some n \<Rightarrow> numberFormat ext n
      | None \<Rightarrow> ''Chrome only'')"

definition resStat :: "Externals \<Rightarrow> AggregatedStats \<Rightarrow> string" where
  "resStat ext stats =
     (case frameWidth (inboundVideoStats stats) of
        None \<Rightarrow> ''Chrome only''
      | Some w \<Rightarrow>
          (case frameHeight (inboundVideoStats stats) of
             None \<Rightarrow> ''Chrome only''
           | Some h \<Rightarrow>
               if truthy w \<and> truthy h
               then Number_toString ext w @ ''x'' @ Number_toString ext h
               else ''Chrome only''))"

definition framesDecodedStat :: "Externals \<Rightarrow> AggregatedStats \<Rightarrow> string" where
  "framesDecodedStat ext stats =
     (case framesDecoded (inboundVideoStats stats) of
        Some n \<Rightarrow> numberFormat ext n
      | None \<Rightarrow> ''Chrome only'')"

text \<open>
  \<^verbatim>\<open>stats.codecs.get(codecId)?.mimeType.replace(prefix, '') ?? ''\<close>: the empty string
  when the table has no entry for the id.
\<close>

definition codecName :: "(string \<times> CodecStats) list \<Rightarrow> string \<Rightarrow> string \<Rightarrow> string" where
  "codecName table cid pre =
     (case Map_get table cid of
        None \<Rightarrow> ''''
      | Some c \<Rightarrow> String_replace pre '''' (mimeType c))"

definition netRTT :: "Externals \<Rightarrow> AggregatedStats \<Rightarrow> string" where
  "netRTT ext stats =
     (let pair = (case activeCandidatePair stats of
                    Some c \<Rightarrow> c
                  | None \<Rightarrow> CandidatePairStats_new)
      in case currentRoundTripTime pair of
           None \<Rightarrow> ''Can't calculate''
         | Some rtt \<Rightarrow>
             if isNumber ext rtt then Number_toString ext (Math_ceil (times1000 rtt))
             else ''Can't calculate'')"

text \<open>
  The calls of \<^verbatim>\<open>handleStats\<close>, in the order of the source. The log line at the end of
  the function writes nothing to the panel and is left out.
\<close>

definition handleStats_calls :: "Externals \<Rightarrow> AggregatedStats \<Rightarrow> call list" where
  "handleStats_calls ext stats =
     (let video = inboundVideoStats stats; audio = inboundAudioStats stats;
          session = sessionStats stats
      in
        [(''InboundDataStat'', ''Received'', Some (formatBytes ext (bytesReceived video) 2))]
      @ [(''PacketsLostStat'', ''Packets Lost'', Some (packetsLostStat ext stats))]
      @ (case InboundVideoStats.bitrate video of
           None \<Rightarrow> []
         | Some b \<Rightarrow> when_call (truthy b)
             (''VideoBitrateStat'', ''Video Bitrate (kbps)'', Some (Number_toString ext b)))
      @ (case InboundAudioStats.bitrate audio of
           None \<Rightarrow> []
         | Some b \<Rightarrow> when_call (truthy b)
             (''AudioBitrateStat'', ''Audio Bitrate (kbps)'', Some (Number_toString ext b)))
      @ [(''VideoResStat'', ''Video resolution'', Some (resStat ext stats))]
      @ [(''FramesDecodedStat'', ''Frames Decoded'', Some (framesDecodedStat ext stats))]
      @ (case framesPerSecond video of
           None \<Rightarrow> []
         | Some f \<Rightarrow> when_call (truthy f)
             (''FramerateStat'', ''Framerate'', Some (Number_toString ext f)))
      @ [(''FramesDroppedStat'', ''Frames dropped'',
           map_option (Number_toString ext) (framesDropped video))]
      @ (case InboundVideoStats.codecId video of
           None \<Rightarrow> []
         | Some cid \<Rightarrow> when_call (cid \<noteq> [])
             (''VideoCodecStat'', ''Video codec'', Some (codecName (codecs stats) cid ''video/'')))
      @ (case InboundAudioStats.codecId audio of
           None \<Rightarrow> []
         | Some cid \<Rightarrow> when_call (cid \<noteq> [])
             (''AudioCodecStat'', ''Audio codec'', Some (codecName (codecs stats) cid ''audio/'')))
      @ [(''RTTStat'', ''Net RTT (ms)'', Some (netRTT ext stats))]
      @ [(''DurationStat'', ''Duration'', runTime session)]
      @ [(''ControlsInputStat'', ''Controls stream input'', controlsStreamInput session)]
      @ (case videoEncoderAvgQP session of
           None \<Rightarrow> []
         | Some qp \<Rightarrow> when_call (qp \<noteq> NaN)
             (''QPStat'', ''Video quantization parameter'', Some (Number_toString ext qp))))"

definition handleStats :: "Externals \<Rightarrow> AggregatedStats \<Rightarrow> StatsPanel \<Rightarrow> StatsPanel" where
  "handleStats ext stats p = run_calls p (handleStats_calls ext stats)"

section \<open>handleLatencyInfo\<close>

text \<open>The six fields of a \<^verbatim>\<open>LatencyInfo\<close> that the handler reads; \<open>None\<close> is \<^verbatim>\<open>undefined\<close>.\<close>

record LatencyInfo =
  SenderLatencyMs :: "number option"
  AverageAssemblyDelayMs :: "number option"
  AverageDecodeLatencyMs :: "number option"
  AverageJitterBufferDelayMs :: "number option"
  AverageProcessingDelayMs :: "number option"
  AverageE2ELatency :: "number option"

text \<open>
  One block of \<^verbatim>\<open>handleLatencyInfo\<close>: the call is made when the field is defined and
  greater than zero, with the field rounded up.
\<close>

definition latency_call :: "Externals \<Rightarrow> number option \<Rightarrow> string \<Rightarrow> string \<Rightarrow> call list" where
  "latency_call ext field i statLabel =
     (case field of
        None \<Rightarrow> []
      | Some x \<Rightarrow> when_call (greater_zero x)
          (i, statLabel, Some (Number_toString ext (Math_ceil x))))"

definition handleLatencyInfo_calls :: "Externals \<Rightarrow> LatencyInfo \<Rightarrow> call list" where
  "handleLatencyInfo_calls ext latencyInfo =
       latency_call ext (SenderLatencyMs latencyInfo) ''SenderSideLatency'' ''Sender latency (ms)''
     @ latency_call ext (AverageAssemblyDelayMs latencyInfo) ''AvgAssemblyDelay'' ''Assembly delay (ms)''
     @ latency_call ext (AverageDecodeLatencyMs latencyInfo) ''AvgDecodeDelay'' ''Decode time (ms)''
     @ latency_call ext (AverageJitterBufferDelayMs latencyInfo) ''AvgJitterBufferDelay'' ''Jitter buffer (ms)''
     @ latency_call ext (AverageProcessingDelayMs latencyInfo) ''AvgProcessingDelay'' ''Processing delay (ms)''
     @ latency_call ext (AverageE2ELatency latencyInfo) ''AvgE2ELatency'' ''Total latency (ms)''"

definition handleLatencyInfo :: "Externals \<Rightarrow> LatencyInfo \<Rightarrow> StatsPanel \<Rightarrow> StatsPanel" where
  "handleLatencyInfo ext latencyInfo p = run_calls p (handleLatencyInfo_calls ext latencyInfo)"

section \<open>Reading the panel\<close>

text \<open>The ids of the map in iteration order.\<close>

definition keysOf :: "StatsPanel \<Rightarrow> string list" where
  "keysOf p = map fst (statsMap p)"

text \<open>The text shown for a stat: the \<^verbatim>\<open>innerHTML\<close> of its element.\<close>

definition displayed :: "StatsPanel \<Rightarrow> string \<Rightarrow> string option" where
  "displayed p i = map_option (\<lambda>s. innerHTML (element s)) (Map_get (statsMap p) i)"

text \<open>Each key of the map with the \<^verbatim>\<open>id\<close> field of its entry, in iteration order.\<close>

definition idsOf :: "StatsPanel \<Rightarrow> (string \<times> string) list" where
  "idsOf p = map (\<lambda>(k, s). (k, stat_id s)) (statsMap p)"

text \<open>The ids of a list in the order of their first occurrence.\<close>

definition firstOccurrences :: "'a list \<Rightarrow> 'a list" where
  "firstOccurrences xs = rev (remdups (rev xs))"

text \<open>
  The conversion the specification calls \<^verbatim>\<open>roundToMillis\<close>, in its words: a duration in
  fractional seconds becomes whole milliseconds, rounded up.
\<close>

definition roundToMillis_spec :: "number \<Rightarrow> number" where
  "roundToMillis_spec seconds = Math_ceil (times1000 seconds)"

text \<open>Stand-ins for the outside functions, to run the handlers on concrete inputs.\<close>

definition sample_isNumber :: "number \<Rightarrow> bool" where
  "sample_isNumber x = (case x of Finite q \<Rightarrow> True | _ \<Rightarrow> False)"

definition sample_externals :: Externals where
  "sample_externals =
     \<lparr>formatBytes = (\<lambda>b d. ''bytes''),
      numberFormat = (\<lambda>x. case x of Finite q \<Rightarrow> int_digits \<lfloor>q\<rfloor> | _ \<Rightarrow> ''NaN''),
      isNumber = sample_isNumber,
      toStringInexact = (\<lambda>q. ''inexact'')\<rparr>"

definition sessionOn :: StatsPanelConfiguration where
  "sessionOn = {SessionStats}"

definition sessionOff :: StatsPanelConfiguration where
  "sessionOff = {LatencyTest, DataChannelLatencyTest}"

text \<open>The six fields of \<^verbatim>\<open>handleLatencyInfo\<close> with the id and the label of each, in the order of the source.\<close>

definition latencyFields :: "((LatencyInfo \<Rightarrow> number option) \<times> string \<times> string) list" where
  "latencyFields =
     [(SenderLatencyMs, ''SenderSideLatency'', ''Sender latency (ms)''),
      (AverageAssemblyDelayMs, ''AvgAssemblyDelay'', ''Assembly delay (ms)''),
      (AverageDecodeLatencyMs, ''AvgDecodeDelay'', ''Decode time (ms)''),
      (AverageJitterBufferDelayMs, ''AvgJitterBufferDelay'', ''Jitter buffer (ms)''),
      (AverageProcessingDelayMs, ''AvgProcessingDelay'', ''Processing delay (ms)''),
      (AverageE2ELatency, ''AvgE2ELatency'', ''Total latency (ms)'')]"

text \<open>A snapshot and a latency report to run the handlers on.\<close>

definition sample_stats :: AggregatedStats where
  "sample_stats =
     \<lparr>inboundVideoStats =
        \<lparr>bytesReceived = Some (Finite 1048576), packetsLost = Some (Finite 7),
         bitrate = Some (Finite 4200), frameWidth = Some (Finite 1920),
         frameHeight = Some (Finite 1080), framesDecoded = Some (Finite 600),
         framesPerSecond = Some (Finite 60), framesDropped = None,
         codecId = Some ''CIT01_96''\<rparr>,
      inboundAudioStats = \<lparr>bitrate = Some (Finite 0), codecId = Some ''CIT01_111''\<rparr>,
      codecs = [(''CIT01_111'', \<lparr>mimeType = ''audio/opus''\<rparr>)],
      activeCandidatePair = Some \<lparr>currentRoundTripTime = Some (double_of_rat (235 / 10000))\<rparr>,
      sessionStats = \<lparr>runTime = Some ''00:01:05'', controlsStreamInput = Some ''true'',
                      videoEncoderAvgQP = Some NaN\<rparr>\<rparr>"

definition sample_latency :: LatencyInfo where
  "sample_latency =
     \<lparr>SenderLatencyMs = Some (Finite (5 / 2)), AverageAssemblyDelayMs = None,
      AverageDecodeLatencyMs = Some (Finite 0), AverageJitterBufferDelayMs = Some NaN,
      AverageProcessingDelayMs = Some (Finite 12), AverageE2ELatency = Some (Finite (-1))\<rparr>"

section \<open>The map operations\<close>

lemma Map_has_map_of: "Map_has m k \<longleftrightarrow> map_of m k \<noteq> None"
  by (simp add: Map_has_def map_of_eq_None_iff)

lemma map_of_Map_set: "map_of (Map_set m k v) = (map_of m)(k \<mapsto> v)"
  by (induction m) auto

lemma Map_set_absent: "k \<notin> set (map fst m) \<Longrightarrow> Map_set m k v = m @ [(k, v)]"
  by (induction m) auto

lemma keys_Map_set_present: "k \<in> set (map fst m) \<Longrightarrow> map fst (Map_set m k v) = map fst m"
  by (induction m) force+

lemma keys_Map_set:
  "map fst (Map_set m k v) = (if k \<in> set (map fst m) then map fst m else map fst m @ [k])"
  by (simp add: Map_set_absent keys_Map_set_present)

lemma Map_set_twice: "Map_set (Map_set m k v) k w = Map_set m k w"
  by (induction m) auto

lemma Map_set_same: "map_of m k = Some v \<Longrightarrow> Map_set m k v = m"
  by (induction m) (auto split: if_splits)

lemma ids_Map_set_present:
  "map_of m k = Some s \<Longrightarrow> stat_id s' = stat_id s \<Longrightarrow>
   map (\<lambda>(k, s). (k, stat_id s)) (Map_set m k s') = map (\<lambda>(k, s). (k, stat_id s)) m"
  by (induction m) (auto split: if_splits)

lemma addOrUpdateStat_gate_off:
  "\<not> isSectionEnabled (config p) SessionStats \<Longrightarrow> addOrUpdateStat i t v p = p"
  by (simp add: addOrUpdateStat_def)

lemma config_addOrUpdateStat: "config (addOrUpdateStat i t v p) = config p"
  by (simp add: addOrUpdateStat_def Let_def split: option.splits)

lemma keysOf_addOrUpdateStat:
  "isSectionEnabled (config p) SessionStats \<Longrightarrow>
   keysOf (addOrUpdateStat i t v p) = (if i \<in> set (keysOf p) then keysOf p else keysOf p @ [i])"
  by (auto simp: addOrUpdateStat_def keysOf_def Let_def Map_has_def Map_get_def keys_Map_set
      split: option.splits)

lemma displayed_addOrUpdateStat:
  "isSectionEnabled (config p) SessionStats \<Longrightarrow>
   displayed (addOrUpdateStat i t v p) j =
     (if j = i then Some (t @ '': '' @ interpolate v) else displayed p j)"
  by (auto simp: addOrUpdateStat_def displayed_def Let_def Map_has_map_of Map_get_def map_of_Map_set
      split: option.splits)

lemma idsOf_addOrUpdateStat:
  "idsOf (addOrUpdateStat i t v p) =
     (if isSectionEnabled (config p) SessionStats \<and> i \<notin> set (keysOf p)
      then idsOf p @ [(i, i)] else idsOf p)"
  by (auto simp: addOrUpdateStat_def idsOf_def keysOf_def Let_def Map_has_def Map_get_def
      Map_set_absent ids_Map_set_present split: option.splits)

lemma run_calls_Nil: "run_calls p [] = p"
  by (simp add: run_calls_def)

lemma run_calls_snoc:
  "run_calls p (cs @ [(i, t, v)]) = addOrUpdateStat i t v (run_calls p cs)"
  by (simp add: run_calls_def)

lemma run_calls_Cons:
  "run_calls p ((i, t, v) # cs) = run_calls (addOrUpdateStat i t v p) cs"
  by (simp add: run_calls_def)

lemma config_run_calls: "config (run_calls p cs) = config p"
proof (induction cs rule: rev_induct)
  case Nil
  show ?case by (simp add: run_calls_Nil)
next
  case (snoc c cs)
  obtain i t v where c: "c = (i, t, v)" by (cases c) auto
  show ?case by (simp add: c run_calls_snoc config_addOrUpdateStat snoc.IH)
qed

lemma run_calls_gate_off:
  "\<not> isSectionEnabled (config p) SessionStats \<Longrightarrow> run_calls p cs = p"
proof (induction cs rule: rev_induct)
  case Nil
  show ?case by (simp add: run_calls_Nil)
next
  case (snoc c cs)
  obtain i t v where c: "c = (i, t, v)" by (cases c) auto
  from snoc show ?case by (simp add: c run_calls_snoc addOrUpdateStat_gate_off)
qed

lemma firstOccurrences_snoc:
  "firstOccurrences (xs @ [x]) =
     (if x \<in> set xs then firstOccurrences xs else firstOccurrences xs @ [x])"
  by (simp add: firstOccurrences_def)

lemma set_firstOccurrences: "set (firstOccurrences xs) = set xs"
  by (simp add: firstOccurrences_def)

lemma keysOf_run_calls:
  "isSectionEnabled (config p) SessionStats \<Longrightarrow>
   keysOf (run_calls p cs) =
     keysOf p @ firstOccurrences (filter (\<lambda>i. i \<notin> set (keysOf p)) (map fst cs))"
proof (induction cs rule: rev_induct)
  case Nil
  show ?case by (simp add: run_calls_Nil firstOccurrences_def)
next
  case (snoc c cs)
  obtain i t v where c: "c = (i, t, v)" by (cases c) auto
  have on: "isSectionEnabled (config (run_calls p cs)) SessionStats"
    using snoc.prems by (simp add: config_run_calls)
  show ?case
    using snoc.IH [OF snoc.prems]
    by (auto simp: c run_calls_snoc keysOf_addOrUpdateStat [OF on] firstOccurrences_snoc
        set_firstOccurrences)
qed

lemma displayed_run_calls:
  "isSectionEnabled (config p) SessionStats \<Longrightarrow>
   displayed (run_calls p cs) i =
     (case rev (filter (\<lambda>c. fst c = i) cs) of
        [] \<Rightarrow> displayed p i
      | c # _ \<Rightarrow> Some (fst (snd c) @ '': '' @ interpolate (snd (snd c))))"
proof (induction cs rule: rev_induct)
  case Nil
  show ?case by (simp add: run_calls_Nil)
next
  case (snoc c cs)
  obtain j t v where c: "c = (j, t, v)" by (cases c) auto
  have on: "isSectionEnabled (config (run_calls p cs)) SessionStats"
    using snoc.prems by (simp add: config_run_calls)
  show ?case
    using snoc.IH [OF snoc.prems]
    by (simp add: c run_calls_snoc displayed_addOrUpdateStat [OF on])
qed

lemma idsOf_run_calls: "prefix (idsOf p) (idsOf (run_calls p cs))"
proof (induction cs rule: rev_induct)
  case Nil
  show ?case by (simp add: run_calls_Nil)
next
  case (snoc c cs)
  obtain i t v where c: "c = (i, t, v)" by (cases c) auto
  from snoc.IH show ?case
    by (simp add: c run_calls_snoc idsOf_addOrUpdateStat prefix_prefix)
qed

section \<open>The calls of the handlers, by id\<close>

lemma filter_when_call_other:
  "fst c \<noteq> i \<Longrightarrow> filter (\<lambda>u. fst u = i) (when_call b c) = []"
  by (simp add: when_call_def)

lemma filter_optional_other:
  "(\<And>b. fst (c b) \<noteq> i) \<Longrightarrow>
   filter (\<lambda>u. fst u = i) (case x of None \<Rightarrow> [] | Some b \<Rightarrow> when_call (g b) (c b)) = []"
  by (cases x) (simp_all add: when_call_def)


lemma calls_for_PacketsLostStat:
  "filter (\<lambda>u. fst u = ''PacketsLostStat'') (handleStats_calls ext stats) =
     [(''PacketsLostStat'', ''Packets Lost'', Some (packetsLostStat ext stats))]"
  by (simp add: handleStats_calls_def Let_def filter_optional_other)

lemma calls_for_VideoCodecStat:
  "filter (\<lambda>u. fst u = ''VideoCodecStat'') (handleStats_calls ext stats) =
     (case InboundVideoStats.codecId (inboundVideoStats stats) of
        None \<Rightarrow> []
      | Some cid \<Rightarrow> when_call (cid \<noteq> [])
          (''VideoCodecStat'', ''Video codec'', Some (codecName (codecs stats) cid ''video/'')))"
  by (simp add: handleStats_calls_def Let_def filter_optional_other when_call_def
      split: option.splits)

lemma calls_for_AudioCodecStat:
  "filter (\<lambda>u. fst u = ''AudioCodecStat'') (handleStats_calls ext stats) =
     (case InboundAudioStats.codecId (inboundAudioStats stats) of
        None \<Rightarrow> []
      | Some cid \<Rightarrow> when_call (cid \<noteq> [])
          (''AudioCodecStat'', ''Audio codec'', Some (codecName (codecs stats) cid ''audio/'')))"
  by (simp add: handleStats_calls_def Let_def filter_optional_other when_call_def
      split: option.splits)

lemma filter_latency_call:
  "filter (\<lambda>u. fst u = j) (latency_call ext field i t) =
     (if i = j then latency_call ext field i t else [])"
  by (simp add: latency_call_def when_call_def split: option.splits)

lemma calls_for_latency_field:
  "(f, i, t) \<in> set latencyFields \<Longrightarrow>
   filter (\<lambda>u. fst u = i) (handleLatencyInfo_calls ext latencyInfo) =
     latency_call ext (f latencyInfo) i t"
  by (auto simp: latencyFields_def handleLatencyInfo_calls_def filter_latency_call)

section \<open>Numbers, strings and new entries\<close>

lemma Number_toString_safe:
  "\<bar>n\<bar> \<le> 9007199254740991 \<Longrightarrow> Number_toString ext (Finite (of_int n)) = int_digits n"
  by (simp add: isSafeInteger_def flip: of_int_abs)

lemma Number_toString_ceil:
  "\<bar>\<lceil>q\<rceil>\<bar> \<le> 9007199254740991 \<Longrightarrow> Number_toString ext (Math_ceil (Finite q)) = int_digits \<lceil>q\<rceil>"
  by (simp only: Math_ceil.simps Number_toString_safe)

lemma displayed_Map_has: "displayed p i = Some x \<Longrightarrow> Map_has (statsMap p) i"
  by (auto simp: displayed_def Map_has_map_of Map_get_def)

lemma Map_has_displayed: "Map_has (statsMap p) i \<longleftrightarrow> displayed p i \<noteq> None"
  by (auto simp: displayed_def Map_has_map_of Map_get_def)

lemma statsMap_addOrUpdateStat_absent:
  "isSectionEnabled (config p) SessionStats \<Longrightarrow> i \<notin> set (keysOf p) \<Longrightarrow>
   statsMap (addOrUpdateStat i t v p) =
     statsMap p @ [(i, \<lparr>stat_id = i, title = t, stat = v,
                        element = \<lparr>innerHTML = t @ '': '' @ interpolate v\<rparr>\<rparr>)]"
  by (simp add: addOrUpdateStat_def keysOf_def Map_has_def Let_def Map_set_absent)

lemma statsMap_addOrUpdateStat_present:
  "isSectionEnabled (config p) SessionStats \<Longrightarrow> Map_get (statsMap p) i = Some s \<Longrightarrow>
   Map_get (statsMap (addOrUpdateStat i t v p)) i =
     Some (s\<lparr>element := (element s)\<lparr>innerHTML := t @ '': '' @ interpolate v\<rparr>\<rparr>)"
  by (simp add: addOrUpdateStat_def Map_has_map_of Map_get_def Let_def map_of_Map_set)

lemma String_replace_prefix: "String_replace pat rep (pat @ b) = rep @ b"
proof (cases "pat @ b")
  case Nil
  then show ?thesis by simp
next
  case (Cons c s)
  have t: "take (length pat) (c # s) = pat" and d: "drop (length pat) (c # s) = b"
    using Cons [symmetric] by simp_all
  show ?thesis
    unfolding Cons by (simp only: String_replace.simps t d simp_thms if_True)
qed

lemma String_replace_first:
  "pat \<noteq> [] \<Longrightarrow> (\<forall>a' b'. a @ pat @ b = a' @ pat @ b' \<longrightarrow> length a \<le> length a') \<Longrightarrow>
   String_replace pat rep (a @ pat @ b) = a @ rep @ b"
proof (induction a)
  case Nil
  then show ?case by (simp add: String_replace_prefix)
next
  case (Cons x a)
  have no: "take (length pat) (x # a @ pat @ b) \<noteq> pat"
  proof
    assume eq: "take (length pat) (x # a @ pat @ b) = pat"
    have "(x # a) @ pat @ b = [] @ pat @ drop (length pat) (x # a @ pat @ b)"
      using append_take_drop_id [of "length pat" "x # a @ pat @ b"] eq by simp
    with Cons.prems(2) have "length (x # a) \<le> length ([]::string)" by blast
    then show False by simp
  qed
  have least: "\<forall>a' b'. a @ pat @ b = a' @ pat @ b' \<longrightarrow> length a \<le> length a'"
  proof (intro allI impI)
    fix a' b'
    assume "a @ pat @ b = a' @ pat @ b'"
    then have "(x # a) @ pat @ b = (x # a') @ pat @ b'" by simp
    with Cons.prems(2) have "length (x # a) \<le> length (x # a')" by blast
    then show "length a \<le> length a'" by simp
  qed
  from Cons.IH [OF Cons.prems(1) least] no show ?case by simp
qed

lemma String_replace_none:
  "pat \<noteq> [] \<Longrightarrow> \<not> (\<exists>a b. s = a @ pat @ b) \<Longrightarrow> String_replace pat rep s = s"
proof (induction s)
  case Nil
  then show ?case by simp
next
  case (Cons c s)
  have no: "take (length pat) (c # s) \<noteq> pat"
  proof
    assume eq: "take (length pat) (c # s) = pat"
    have "c # s = [] @ pat @ drop (length pat) (c # s)"
      using append_take_drop_id [of "length pat" "c # s"] eq by simp
    with Cons.prems(2) show False by blast
  qed
  have rest: "\<not> (\<exists>a b. s = a @ pat @ b)"
  proof
    assume "\<exists>a b. s = a @ pat @ b"
    then obtain a b where "s = a @ pat @ b" by blast
    then have "c # s = (c # a) @ pat @ b" by simp
    with Cons.prems(2) show False by blast
  qed
  from Cons.IH [OF Cons.prems(1) rest] no show ?case by simp
qed

lemma handleLatencyInfo_calls_table:
  "handleLatencyInfo_calls ext latencyInfo =
     concat (map (\<lambda>(f, i, t). latency_call ext (f latencyInfo) i t) latencyFields)"
  by (simp add: handleLatencyInfo_calls_def latencyFields_def)


lemma sessionOn_enabled: "isSectionEnabled (config (StatsPanel_new sessionOn)) SessionStats"
  by (simp add: StatsPanel_new_def sessionOn_def isSectionEnabled_def)

lemma sessionOff_disabled: "\<not> isSectionEnabled (config (StatsPanel_new sessionOff)) SessionStats"
  by (simp add: StatsPanel_new_def sessionOff_def isSectionEnabled_def)

lemma displayed_new: "displayed (StatsPanel_new cfg) i = None"
  by (simp add: displayed_def StatsPanel_new_def Map_get_def)

section \<open>What the handlers show\<close>

lemma displayed_handleStats_single:
  "isSectionEnabled (config p) SessionStats \<Longrightarrow>
   filter (\<lambda>u. fst u = i) (handleStats_calls ext stats) = [(i, t, v)] \<Longrightarrow>
   displayed (handleStats ext stats p) i = Some (t @ '': '' @ interpolate v)"
  by (simp add: handleStats_def displayed_run_calls)






lemma displayed_VideoCodecStat:
  "isSectionEnabled (config p) SessionStats \<Longrightarrow>
   displayed (handleStats ext stats p) ''VideoCodecStat'' =
     (case InboundVideoStats.codecId (inboundVideoStats stats) of
        None \<Rightarrow> displayed p ''VideoCodecStat''
      | Some cid \<Rightarrow>
          if cid \<noteq> [] then Some (''Video codec: '' @ codecName (codecs stats) cid ''video/'')
          else displayed p ''VideoCodecStat'')"
  by (simp add: handleStats_def displayed_run_calls calls_for_VideoCodecStat when_call_def
      split: option.splits)

lemma displayed_AudioCodecStat:
  "isSectionEnabled (config p) SessionStats \<Longrightarrow>
   displayed (handleStats ext stats p) ''AudioCodecStat'' =
     (case InboundAudioStats.codecId (inboundAudioStats stats) of
        None \<Rightarrow> displayed p ''AudioCodecStat''
      | Some cid \<Rightarrow>
          if cid \<noteq> [] then Some (''Audio codec: '' @ codecName (codecs stats) cid ''audio/'')
          else displayed p ''AudioCodecStat'')"
  by (simp add: handleStats_def displayed_run_calls calls_for_AudioCodecStat when_call_def
      split: option.splits)

lemma displayed_latency_field:
  "(f, i, t) \<in> set latencyFields \<Longrightarrow> isSectionEnabled (config p) SessionStats \<Longrightarrow>
   displayed (handleLatencyInfo ext latencyInfo p) i =
     (case f latencyInfo of
        None \<Rightarrow> displayed p i
      | Some x \<Rightarrow>
          if greater_zero x then Some (t @ '': '' @ Number_toString ext (Math_ceil x))
          else displayed p i)"
  by (simp add: handleLatencyInfo_def displayed_run_calls calls_for_latency_field
      latency_call_def when_call_def split: option.splits)

lemma sender_field: "(SenderLatencyMs, ''SenderSideLatency'', ''Sender latency (ms)'') \<in> set latencyFields"
  by (simp add: latencyFields_def)

lemma decode_field: "(AverageDecodeLatencyMs, ''AvgDecodeDelay'', ''Decode time (ms)'') \<in> set latencyFields"
  by (simp add: latencyFields_def)

lemma ceil_sample: "Number_toString sample_externals (Math_ceil (Finite (5 / 2))) = ''3''"
  by code_simp

lemma millis_sample: "Number_toString sample_externals (roundToMillis_spec (Finite (5 / 2))) = ''2500''"
  by code_simp

lemma handleLatencyInfo_gate_off:
  "\<not> isSectionEnabled (config p) SessionStats \<Longrightarrow> handleLatencyInfo ext latencyInfo p = p"
  by (simp add: handleLatencyInfo_def run_calls_gate_off)

section \<open>The claims about the registry\<close>

text \<open>
  C4. Calling \<^verbatim>\<open>addOrUpdateStat\<close> a second time with the same id, label and value
  changes nothing: the whole panel state after the second call (the entries of the map,
  their order, and the children of the result element) is the state after the first
  call. This holds from every state and for every configuration.
\<close>

theorem addOrUpdateStat_idempotent:
  "addOrUpdateStat i statLabel st (addOrUpdateStat i statLabel st p) =
     addOrUpdateStat i statLabel st p"
proof (cases "isSectionEnabled (config p) SessionStats")
  case False
  then show ?thesis by (simp add: addOrUpdateStat_gate_off)
next
  case on: True
  show ?thesis
  proof (cases "map_of (statsMap p) i")
    case None
    then show ?thesis using on
      by (simp add: addOrUpdateStat_def Let_def Map_has_map_of Map_get_def map_of_Map_set
          Map_set_twice)
  next
    case (Some s)
    then show ?thesis using on
      by (simp add: addOrUpdateStat_def Let_def Map_has_map_of Map_get_def map_of_Map_set
          Map_set_twice)
  qed
qed

theorem addOrUpdateStat_idempotent_witness:
  "statsMap (addOrUpdateStat ''RTTStat'' ''Net RTT (ms)'' (Some ''24'')
     (addOrUpdateStat ''RTTStat'' ''Net RTT (ms)'' (Some ''24'') (StatsPanel_new sessionOn))) =
   [(''RTTStat'', \<lparr>stat_id = ''RTTStat'', title = ''Net RTT (ms)'', stat = Some ''24'',
       element = \<lparr>innerHTML = ''Net RTT (ms): 24''\<rparr>\<rparr>)]"
proof -
  have first: "statsMap (addOrUpdateStat ''RTTStat'' ''Net RTT (ms)'' (Some ''24'')
       (StatsPanel_new sessionOn)) =
     [(''RTTStat'', \<lparr>stat_id = ''RTTStat'', title = ''Net RTT (ms)'', stat = Some ''24'',
         element = \<lparr>innerHTML = ''Net RTT (ms): 24''\<rparr>\<rparr>)]"
    by (simp add: addOrUpdateStat_def StatsPanel_new_def sessionOn_def isSectionEnabled_def
        Map_has_def Let_def)
  show ?thesis
    using addOrUpdateStat_idempotent
      [of "''RTTStat''" "''Net RTT (ms)''" "Some ''24''" "StatsPanel_new sessionOn"] first
    by simp
qed

text \<open>
  C2. With the session-stats section disabled, \<^verbatim>\<open>handleStats\<close> and
  \<^verbatim>\<open>handleLatencyInfo\<close> return the panel as it was, for every snapshot and every
  latency report: no entry is created and no shown text changes.
\<close>

theorem handlers_unchanged_when_gate_off:
  assumes "\<not> isSectionEnabled (config p) SessionStats"
  shows "handleStats ext stats p = p \<and> handleLatencyInfo ext latencyInfo p = p"
  using assms by (simp add: handleStats_def handleLatencyInfo_def run_calls_gate_off)

theorem handlers_unchanged_when_gate_off_witness:
  "\<not> isSectionEnabled (config (StatsPanel_new sessionOff)) SessionStats
   \<and> handleStats sample_externals sample_stats (StatsPanel_new sessionOff) =
       StatsPanel_new sessionOff
   \<and> handleLatencyInfo sample_externals sample_latency (StatsPanel_new sessionOff) =
       StatsPanel_new sessionOff"
proof -
  have off: "\<not> isSectionEnabled (config (StatsPanel_new sessionOff)) SessionStats"
    by (simp add: StatsPanel_new_def sessionOff_def isSectionEnabled_def)
  show ?thesis
    using off handlers_unchanged_when_gate_off
      [OF off, of sample_externals sample_stats sample_latency]
    by simp
qed

text \<open>
  C9. No operation deletes an entry or rewrites the id of one. After
  \<^verbatim>\<open>handlePlayerCount\<close>, \<^verbatim>\<open>handleStats\<close>, \<^verbatim>\<open>handleLatencyInfo\<close> or
  \<^verbatim>\<open>addOrUpdateStat\<close>, from every state, the keys of the map with the \<^verbatim>\<open>id\<close> field of
  each entry begin with what they were before the operation: every entry is still there,
  at its place, under its key and with its id, and the set of ids can only have grown.
\<close>

theorem ids_only_grow:
  "prefix (idsOf p) (idsOf (addOrUpdateStat i statLabel st p))
   \<and> prefix (idsOf p) (idsOf (handlePlayerCount ext playerCount p))
   \<and> prefix (idsOf p) (idsOf (handleStats ext stats p))
   \<and> prefix (idsOf p) (idsOf (handleLatencyInfo ext latencyInfo p))
   \<and> set (keysOf p) \<subseteq> set (keysOf (addOrUpdateStat i statLabel st p))
   \<and> set (keysOf p) \<subseteq> set (keysOf (handlePlayerCount ext playerCount p))
   \<and> set (keysOf p) \<subseteq> set (keysOf (handleStats ext stats p))
   \<and> set (keysOf p) \<subseteq> set (keysOf (handleLatencyInfo ext latencyInfo p))"
proof -
  have keys: "keysOf q = map fst (idsOf q)" for q
    by (simp add: keysOf_def idsOf_def case_prod_unfold comp_def)
  have sub: "set (keysOf q) \<subseteq> set (keysOf r)" if "prefix (idsOf q) (idsOf r)" for q r
    using that set_mono_prefix [of "map fst (idsOf q)" "map fst (idsOf r)"]
    by (simp add: keys map_mono_prefix)
  have one: "prefix (idsOf p) (idsOf (addOrUpdateStat j t v p))" for j t v
    by (simp add: idsOf_addOrUpdateStat)
  have many: "prefix (idsOf p) (idsOf (run_calls p cs))" for cs
    by (rule idsOf_run_calls)
  show ?thesis
    using one many sub
    by (simp add: handlePlayerCount_def handleStats_def handleLatencyInfo_def)
qed

theorem ids_only_grow_witness:
  "idsOf (addOrUpdateStat ''RTTStat'' ''Net RTT (ms)'' (Some ''24'') (StatsPanel_new sessionOn)) =
     [(''RTTStat'', ''RTTStat'')]
   \<and> prefix [(''RTTStat'', ''RTTStat'')]
        (idsOf (handleLatencyInfo sample_externals sample_latency
           (addOrUpdateStat ''RTTStat'' ''Net RTT (ms)'' (Some ''24'') (StatsPanel_new sessionOn))))"
proof -
  have first: "idsOf (addOrUpdateStat ''RTTStat'' ''Net RTT (ms)'' (Some ''24'')
       (StatsPanel_new sessionOn)) = [(''RTTStat'', ''RTTStat'')]"
    by (simp add: idsOf_def addOrUpdateStat_def StatsPanel_new_def sessionOn_def
        isSectionEnabled_def Map_has_def Let_def)
  show ?thesis
    using first ids_only_grow
      [of "addOrUpdateStat ''RTTStat'' ''Net RTT (ms)'' (Some ''24'') (StatsPanel_new sessionOn)"
          "''RTTStat''" "''Net RTT (ms)''" "Some ''24''" sample_externals "Finite 1" sample_stats
          sample_latency]
    by simp
qed

text \<open>
  C5. The iteration order of the map is the order in which the ids were first inserted.
  From the empty map of a new panel, after any sequence of \<^verbatim>\<open>addOrUpdateStat\<close> calls,
  the keys are the ids of the calls in the order of their first occurrence (and there are
  none when the session-stats section is disabled). From any state, calls whose ids are
  all in the map already leave the order as it is, so after inserting a, b and c, later
  updates of a or b keep the order a, b, c; in general the new ids are appended after the
  old keys in the order of their first occurrence.
\<close>

theorem iteration_order_is_first_insertion:
  "keysOf (run_calls (StatsPanel_new cfg) cs) =
     (if isSectionEnabled cfg SessionStats then firstOccurrences (map fst cs) else [])
   \<and> (set (map fst us) \<subseteq> set (keysOf p) \<longrightarrow> keysOf (run_calls p us) = keysOf p)
   \<and> (isSectionEnabled (config p) SessionStats \<longrightarrow>
        keysOf (run_calls p us) =
          keysOf p @ firstOccurrences (filter (\<lambda>i. i \<notin> set (keysOf p)) (map fst us)))"
proof (intro conjI impI)
  show "keysOf (run_calls (StatsPanel_new cfg) cs) =
     (if isSectionEnabled cfg SessionStats then firstOccurrences (map fst cs) else [])"
  proof (cases "isSectionEnabled cfg SessionStats")
    case True
    then have "isSectionEnabled (config (StatsPanel_new cfg)) SessionStats"
      by (simp add: StatsPanel_new_def)
    from keysOf_run_calls [OF this, of cs] True show ?thesis
      by (simp add: keysOf_def StatsPanel_new_def)
  next
    case False
    then have "\<not> isSectionEnabled (config (StatsPanel_new cfg)) SessionStats"
      by (simp add: StatsPanel_new_def)
    from run_calls_gate_off [OF this, of cs] False show ?thesis
      by (simp add: keysOf_def StatsPanel_new_def)
  qed
next
  assume known: "set (map fst us) \<subseteq> set (keysOf p)"
  show "keysOf (run_calls p us) = keysOf p"
  proof (cases "isSectionEnabled (config p) SessionStats")
    case True
    have "filter (\<lambda>i. i \<notin> set (keysOf p)) (map fst us) = []"
      using known by (auto simp: filter_empty_conv)
    with keysOf_run_calls [OF True, of us] show ?thesis
      by (simp add: firstOccurrences_def)
  next
    case False
    then show ?thesis by (simp add: run_calls_gate_off)
  qed
next
  assume "isSectionEnabled (config p) SessionStats"
  then show "keysOf (run_calls p us) =
      keysOf p @ firstOccurrences (filter (\<lambda>i. i \<notin> set (keysOf p)) (map fst us))"
    by (rule keysOf_run_calls)
qed

theorem iteration_order_is_first_insertion_witness:
  "keysOf (run_calls (StatsPanel_new sessionOn)
     [(''a'', ''A'', Some ''1''), (''b'', ''B'', Some ''2''), (''c'', ''C'', Some ''3'')]) =
     [''a'', ''b'', ''c'']
   \<and> keysOf (run_calls (run_calls (StatsPanel_new sessionOn)
        [(''a'', ''A'', Some ''1''), (''b'', ''B'', Some ''2''), (''c'', ''C'', Some ''3'')])
        [(''b'', ''B'', Some ''5''), (''a'', ''A'', Some ''4''), (''b'', ''B'', Some ''6'')]) =
     [''a'', ''b'', ''c'']"
proof -
  let ?p = "run_calls (StatsPanel_new sessionOn)
     [(''a'', ''A'', Some ''1''), (''b'', ''B'', Some ''2''), (''c'', ''C'', Some ''3'')]"
  have on: "isSectionEnabled sessionOn SessionStats"
    by (simp add: sessionOn_def isSectionEnabled_def)
  have first: "keysOf ?p = [''a'', ''b'', ''c'']"
    using on iteration_order_is_first_insertion
      [of sessionOn "[(''a'', ''A'', Some ''1''), (''b'', ''B'', Some ''2''), (''c'', ''C'', Some ''3'')]"
          "[]" "StatsPanel_new sessionOn"]
    by (simp add: firstOccurrences_def)
  have later: "keysOf (run_calls ?p
        [(''b'', ''B'', Some ''5''), (''a'', ''A'', Some ''4''), (''b'', ''B'', Some ''6'')]) = keysOf ?p"
    using first iteration_order_is_first_insertion
      [of sessionOn "[]"
          "[(''b'', ''B'', Some ''5''), (''a'', ''A'', Some ''4''), (''b'', ''B'', Some ''6'')]" ?p]
    by simp
  show ?thesis using first later by simp
qed

text \<open>
  C3, at the input where the code departs from it. The first call creates the entry for
  an absent id with the id, the label and the value and appends it. A second call for the
  same id with another label and another value rewrites the text of the element and
  nothing else: the fields \<^verbatim>\<open>title\<close> and \<^verbatim>\<open>stat\<close> of the stored entry still hold the
  label and the value of the first call.
\<close>

theorem addOrUpdateStat_update_keeps_stored_fields:
  "Map_get (statsMap
     (addOrUpdateStat ''RTTStat'' ''Round trip (ms)'' (Some ''31'')
        (addOrUpdateStat ''RTTStat'' ''Net RTT (ms)'' (Some ''24'') (StatsPanel_new sessionOn))))
     ''RTTStat'' =
   Some \<lparr>stat_id = ''RTTStat'', title = ''Net RTT (ms)'', stat = Some ''24'',
         element = \<lparr>innerHTML = ''Round trip (ms): 31''\<rparr>\<rparr>"
  by (simp add: addOrUpdateStat_def StatsPanel_new_def sessionOn_def isSectionEnabled_def
      Map_has_def Map_get_def Let_def)

section \<open>The claims about the handlers\<close>

text \<open>
  C1, as the code has it. \<^verbatim>\<open>handlePlayerCount\<close> goes through \<^verbatim>\<open>addOrUpdateStat\<close> and so
  through its gate. With the session-stats section enabled, the stat with id
  PlayerCountStat is in the map afterwards, at its old place or appended, and shows the
  label Players with the count printed by \<^verbatim>\<open>toString\<close>, which for an integer of
  magnitude at most 2^53 - 1 is its decimal digits. With the section disabled the panel
  is returned unchanged.
\<close>

theorem handlePlayerCount_gated:
  "(isSectionEnabled (config p) SessionStats \<longrightarrow>
      displayed (handlePlayerCount ext playerCount p) ''PlayerCountStat'' =
        Some (''Players: '' @ Number_toString ext playerCount)
      \<and> keysOf (handlePlayerCount ext playerCount p) =
          (if ''PlayerCountStat'' \<in> set (keysOf p) then keysOf p
           else keysOf p @ [''PlayerCountStat''])
      \<and> (\<forall>n. playerCount = Finite (of_int n) \<and> \<bar>n\<bar> \<le> 9007199254740991 \<longrightarrow>
            Number_toString ext playerCount = int_digits n))
   \<and> (\<not> isSectionEnabled (config p) SessionStats \<longrightarrow>
        handlePlayerCount ext playerCount p = p)"
  by (simp add: handlePlayerCount_def displayed_addOrUpdateStat keysOf_addOrUpdateStat
      addOrUpdateStat_gate_off Number_toString_safe del: Number_toString.simps)

theorem handlePlayerCount_gated_witness:
  "isSectionEnabled (config (StatsPanel_new sessionOn)) SessionStats
   \<and> displayed (handlePlayerCount sample_externals (Finite 3) (StatsPanel_new sessionOn))
        ''PlayerCountStat'' = Some ''Players: 3''
   \<and> \<not> isSectionEnabled (config (StatsPanel_new sessionOff)) SessionStats
   \<and> handlePlayerCount sample_externals (Finite 3) (StatsPanel_new sessionOff) =
        StatsPanel_new sessionOff"
proof -
  have three: "Number_toString sample_externals (Finite 3) = ''3''"
    by code_simp
  show ?thesis
    using sessionOn_enabled sessionOff_disabled three
      handlePlayerCount_gated [of "StatsPanel_new sessionOn" sample_externals "Finite 3"]
      handlePlayerCount_gated [of "StatsPanel_new sessionOff" sample_externals "Finite 3"]
    by simp
qed

text \<open>
  The gate applies to the player count too: on a new panel whose session-stats section
  is disabled, \<^verbatim>\<open>handlePlayerCount(3)\<close> leaves the map without an entry for
  PlayerCountStat.
\<close>

theorem handlePlayerCount_gate_counterexample:
  "\<not> Map_has (statsMap (handlePlayerCount sample_externals (Finite 3) (StatsPanel_new sessionOff)))
        ''PlayerCountStat''"
proof -
  have "handlePlayerCount sample_externals (Finite 3) (StatsPanel_new sessionOff) =
      StatsPanel_new sessionOff"
    by (simp only: handlePlayerCount_def addOrUpdateStat_gate_off [OF sessionOff_disabled])
  then show ?thesis
    by (simp add: StatsPanel_new_def Map_has_def)
qed



text \<open>
  C7. With the session-stats section enabled, \<^verbatim>\<open>handleStats\<close> makes one call for
  PacketsLostStat whatever the snapshot holds, so the stat is in the map afterwards. It
  shows the label \<open>Packets Lost\<close> with \<^verbatim>\<open>packetsLost\<close> formatted by the number format
  when the inbound video stats have that field, and with the sentinel \<open>Chrome only\<close> when
  they do not.
\<close>

theorem PacketsLostStat_value:
  assumes "isSectionEnabled (config p) SessionStats"
  shows "filter (\<lambda>u. fst u = ''PacketsLostStat'') (handleStats_calls ext stats) =
           [(''PacketsLostStat'', ''Packets Lost'', Some (packetsLostStat ext stats))]
     \<and> Map_has (statsMap (handleStats ext stats p)) ''PacketsLostStat''
     \<and> (packetsLost (inboundVideoStats stats) = Some n \<longrightarrow>
          displayed (handleStats ext stats p) ''PacketsLostStat'' =
            Some (''Packets Lost: '' @ numberFormat ext n))
     \<and> (packetsLost (inboundVideoStats stats) = None \<longrightarrow>
          displayed (handleStats ext stats p) ''PacketsLostStat'' =
            Some ''Packets Lost: Chrome only'')"
proof -
  have shown: "displayed (handleStats ext stats p) ''PacketsLostStat'' =
      Some (''Packets Lost: '' @ packetsLostStat ext stats)"
    using displayed_handleStats_single [OF assms calls_for_PacketsLostStat] by simp
  then have there: "Map_has (statsMap (handleStats ext stats p)) ''PacketsLostStat''"
    by (rule displayed_Map_has)
  have some: "packetsLost (inboundVideoStats stats) = Some n \<longrightarrow>
      displayed (handleStats ext stats p) ''PacketsLostStat'' =
        Some (''Packets Lost: '' @ numberFormat ext n)"
    by (simp add: shown packetsLostStat_def)
  have none: "packetsLost (inboundVideoStats stats) = None \<longrightarrow>
      displayed (handleStats ext stats p) ''PacketsLostStat'' =
        Some ''Packets Lost: Chrome only''"
    by (simp add: shown packetsLostStat_def)
  from calls_for_PacketsLostStat there some none show ?thesis
    by (intro conjI)
qed

theorem PacketsLostStat_value_witness:
  "isSectionEnabled (config (StatsPanel_new sessionOn)) SessionStats
   \<and> displayed (handleStats sample_externals sample_stats (StatsPanel_new sessionOn))
        ''PacketsLostStat'' = Some ''Packets Lost: 7''
   \<and> displayed (handleStats sample_externals
          (sample_stats\<lparr>inboundVideoStats := (inboundVideoStats sample_stats)\<lparr>packetsLost := None\<rparr>\<rparr>)
          (StatsPanel_new sessionOn))
        ''PacketsLostStat'' = Some ''Packets Lost: Chrome only''"
proof -
  let ?absent = "sample_stats\<lparr>inboundVideoStats := (inboundVideoStats sample_stats)\<lparr>packetsLost := None\<rparr>\<rparr>"
  have seven: "packetsLost (inboundVideoStats sample_stats) = Some (Finite 7)"
    by (simp add: sample_stats_def)
  have fmt: "numberFormat sample_externals (Finite 7) = ''7''"
    by code_simp
  have gone: "packetsLost (inboundVideoStats ?absent) = None"
    by simp
  note full = PacketsLostStat_value [OF sessionOn_enabled, of sample_externals sample_stats "Finite 7"]
  note absent = PacketsLostStat_value [OF sessionOn_enabled, of sample_externals ?absent]
  have a: "displayed (handleStats sample_externals sample_stats (StatsPanel_new sessionOn))
      ''PacketsLostStat'' = Some (''Packets Lost: '' @ numberFormat sample_externals (Finite 7))"
    by (rule full [THEN conjunct2, THEN conjunct2, THEN conjunct1, THEN mp]) (rule seven)
  have b: "displayed (handleStats sample_externals ?absent (StatsPanel_new sessionOn))
      ''PacketsLostStat'' = Some ''Packets Lost: Chrome only''"
    by (rule absent [THEN conjunct2, THEN conjunct2, THEN conjunct2, THEN mp]) (rule gone)
  from a fmt have a': "displayed (handleStats sample_externals sample_stats (StatsPanel_new sessionOn))
      ''PacketsLostStat'' = Some ''Packets Lost: 7''"
    by simp
  show ?thesis using sessionOn_enabled a' b by (intro conjI)
qed

text \<open>
  C8, as the code has it. For each of the six latency fields, with its id and label:
  \<^verbatim>\<open>handleLatencyInfo\<close> makes a call for the id exactly when the field is defined and
  greater than zero, and the value of the call is \<^verbatim>\<open>Math.ceil(field).toString()\<close>: the
  field is a number of milliseconds already and is rounded up, not multiplied by 1000.
  With the session-stats section enabled the stat then shows the label with that value,
  and a field that is absent or not greater than zero leaves the stat as it was; the id is
  in the map afterwards exactly when it was there before or the call was made. With the
  section disabled the panel is returned unchanged. The rounded value prints as its
  decimal digits while it is a safe integer. An \<^verbatim>\<open>AverageDecodeLatencyMs\<close> of 0 makes no
  call for AvgDecodeDelay and leaves what that stat shows.
\<close>

theorem latency_field_upsert:
  assumes "(f, i, t) \<in> set latencyFields"
  shows "filter (\<lambda>u. fst u = i) (handleLatencyInfo_calls ext latencyInfo) =
           (case f latencyInfo of
              None \<Rightarrow> []
            | Some x \<Rightarrow>
                if greater_zero x then [(i, t, Some (Number_toString ext (Math_ceil x)))]
                else [])
     \<and> (isSectionEnabled (config p) SessionStats \<longrightarrow>
          displayed (handleLatencyInfo ext latencyInfo p) i =
            (case f latencyInfo of
               None \<Rightarrow> displayed p i
             | Some x \<Rightarrow>
                 if greater_zero x then Some (t @ '': '' @ Number_toString ext (Math_ceil x))
                 else displayed p i))
     \<and> (isSectionEnabled (config p) SessionStats \<longrightarrow>
          (Map_has (statsMap (handleLatencyInfo ext latencyInfo p)) i \<longleftrightarrow>
             Map_has (statsMap p) i \<or> (\<exists>x. f latencyInfo = Some x \<and> greater_zero x)))
     \<and> (\<not> isSectionEnabled (config p) SessionStats \<longrightarrow>
          handleLatencyInfo ext latencyInfo p = p)
     \<and> (0 < q \<and> \<lceil>q\<rceil> \<le> 9007199254740991 \<longrightarrow>
          Number_toString ext (Math_ceil (Finite q)) = int_digits \<lceil>q\<rceil>)
     \<and> (AverageDecodeLatencyMs latencyInfo = Some (Finite 0) \<longrightarrow>
          filter (\<lambda>u. fst u = ''AvgDecodeDelay'') (handleLatencyInfo_calls ext latencyInfo) = []
          \<and> displayed (handleLatencyInfo ext latencyInfo p) ''AvgDecodeDelay'' =
              displayed p ''AvgDecodeDelay'')"
proof -
  have c1: "filter (\<lambda>u. fst u = i) (handleLatencyInfo_calls ext latencyInfo) =
      (case f latencyInfo of
         None \<Rightarrow> []
       | Some x \<Rightarrow>
           if greater_zero x then [(i, t, Some (Number_toString ext (Math_ceil x)))]
           else [])"
    by (simp add: calls_for_latency_field [OF assms] latency_call_def when_call_def
        split: option.splits)
  have c2: "isSectionEnabled (config p) SessionStats \<longrightarrow>
      displayed (handleLatencyInfo ext latencyInfo p) i =
        (case f latencyInfo of
           None \<Rightarrow> displayed p i
         | Some x \<Rightarrow>
             if greater_zero x then Some (t @ '': '' @ Number_toString ext (Math_ceil x))
             else displayed p i)"
    using displayed_latency_field [OF assms] by blast
  have c3: "isSectionEnabled (config p) SessionStats \<longrightarrow>
      (Map_has (statsMap (handleLatencyInfo ext latencyInfo p)) i \<longleftrightarrow>
         Map_has (statsMap p) i \<or> (\<exists>x. f latencyInfo = Some x \<and> greater_zero x))"
    by (auto simp: Map_has_displayed displayed_latency_field [OF assms] split: option.splits)
  have c4: "\<not> isSectionEnabled (config p) SessionStats \<longrightarrow>
      handleLatencyInfo ext latencyInfo p = p"
    by (simp add: handleLatencyInfo_gate_off)
  have c5: "0 < q \<and> \<lceil>q\<rceil> \<le> 9007199254740991 \<longrightarrow>
      Number_toString ext (Math_ceil (Finite q)) = int_digits \<lceil>q\<rceil>"
  proof (intro impI, elim conjE)
    assume "0 < q" "\<lceil>q\<rceil> \<le> 9007199254740991"
    then have "\<bar>\<lceil>q\<rceil>\<bar> \<le> 9007199254740991" by linarith
    then show "Number_toString ext (Math_ceil (Finite q)) = int_digits \<lceil>q\<rceil>"
      by (rule Number_toString_ceil)
  qed
  have c6: "AverageDecodeLatencyMs latencyInfo = Some (Finite 0) \<longrightarrow>
      filter (\<lambda>u. fst u = ''AvgDecodeDelay'') (handleLatencyInfo_calls ext latencyInfo) = []
      \<and> displayed (handleLatencyInfo ext latencyInfo p) ''AvgDecodeDelay'' =
          displayed p ''AvgDecodeDelay''"
  proof (intro impI conjI)
    assume zero: "AverageDecodeLatencyMs latencyInfo = Some (Finite 0)"
    show "filter (\<lambda>u. fst u = ''AvgDecodeDelay'') (handleLatencyInfo_calls ext latencyInfo) = []"
      by (simp add: calls_for_latency_field [OF decode_field] latency_call_def when_call_def zero)
    show "displayed (handleLatencyInfo ext latencyInfo p) ''AvgDecodeDelay'' =
        displayed p ''AvgDecodeDelay''"
    proof (cases "isSectionEnabled (config p) SessionStats")
      case True
      then show ?thesis by (simp add: displayed_latency_field [OF decode_field] zero)
    next
      case False
      then show ?thesis by (simp add: handleLatencyInfo_gate_off)
    qed
  qed
  from c1 c2 c3 c4 c5 c6 show ?thesis by (intro conjI)
qed

theorem latency_field_upsert_witness:
  "(SenderLatencyMs, ''SenderSideLatency'', ''Sender latency (ms)'') \<in> set latencyFields
   \<and> isSectionEnabled (config (StatsPanel_new sessionOn)) SessionStats
   \<and> displayed (handleLatencyInfo sample_externals sample_latency (StatsPanel_new sessionOn))
       ''SenderSideLatency'' = Some ''Sender latency (ms): 3''
   \<and> AverageDecodeLatencyMs sample_latency = Some (Finite 0)
   \<and> displayed (handleLatencyInfo sample_externals sample_latency (StatsPanel_new sessionOn))
       ''AvgDecodeDelay'' = None"
proof -
  have sender: "SenderLatencyMs sample_latency = Some (Finite (5 / 2))"
    and decode: "AverageDecodeLatencyMs sample_latency = Some (Finite 0)"
    by (simp_all add: sample_latency_def)
  note all = latency_field_upsert [OF sender_field, of sample_externals sample_latency
      "StatsPanel_new sessionOn"]
  note shown = all [THEN conjunct2, THEN conjunct1, THEN mp, OF sessionOn_enabled]
  note kept = all [THEN conjunct2, THEN conjunct2, THEN conjunct2, THEN conjunct2, THEN conjunct2,
      THEN mp, OF decode, THEN conjunct2]
  have a: "displayed (handleLatencyInfo sample_externals sample_latency (StatsPanel_new sessionOn))
      ''SenderSideLatency'' = Some ''Sender latency (ms): 3''"
    using shown ceil_sample by (simp add: sender)
  have b: "displayed (handleLatencyInfo sample_externals sample_latency (StatsPanel_new sessionOn))
      ''AvgDecodeDelay'' = None"
    using kept by (simp add: displayed_new)
  show ?thesis using sender_field sessionOn_enabled a decode b by (intro conjI)
qed

text \<open>
  The sender latency 2.5 is shown as 3, where a conversion from seconds to milliseconds
  would give 2500; and with the session-stats section disabled the same report, whose
  sender latency is greater than zero, creates no entry for SenderSideLatency.
\<close>

theorem latency_counterexample:
  "SenderLatencyMs sample_latency = Some (Finite (5 / 2))
   \<and> displayed (handleLatencyInfo sample_externals sample_latency (StatsPanel_new sessionOn))
       ''SenderSideLatency'' = Some ''Sender latency (ms): 3''
   \<and> Number_toString sample_externals (roundToMillis_spec (Finite (5 / 2))) = ''2500''
   \<and> displayed (handleLatencyInfo sample_externals sample_latency (StatsPanel_new sessionOff))
       ''SenderSideLatency'' = None"
proof -
  have sender: "SenderLatencyMs sample_latency = Some (Finite (5 / 2))"
    by (simp add: sample_latency_def)
  have a: "displayed (handleLatencyInfo sample_externals sample_latency (StatsPanel_new sessionOn))
      ''SenderSideLatency'' = Some ''Sender latency (ms): 3''"
    using displayed_latency_field [OF sender_field sessionOn_enabled, of sample_externals sample_latency]
      ceil_sample
    by (simp add: sender)
  have b: "displayed (handleLatencyInfo sample_externals sample_latency (StatsPanel_new sessionOff))
      ''SenderSideLatency'' = None"
    by (simp only: handleLatencyInfo_gate_off [OF sessionOff_disabled] displayed_new)
  show ?thesis using sender a millis_sample b by (intro conjI)
qed

text \<open>
  C10, as the code has it. With the session-stats section enabled: when the video (audio)
  \<^verbatim>\<open>codecId\<close> is a non-empty string with no entry in the codec table, VideoCodecStat
  (AudioCodecStat) shows its label with the empty string; when the table has an entry,
  the stat shows the mime type with the first occurrence of \<open>video/\<close> (\<open>audio/\<close>)
  removed. An absent or empty \<^verbatim>\<open>codecId\<close> makes no call and leaves what the stat
  shows. \<^verbatim>\<open>replace\<close> removes the prefix of a string that begins with it, removes the
  first occurrence wherever it lies, and returns a string without an occurrence as it is.
\<close>

theorem codec_stat_value:
  assumes "isSectionEnabled (config p) SessionStats"
  shows "(InboundVideoStats.codecId (inboundVideoStats stats) = Some vid \<and> vid \<noteq> []
            \<and> Map_get (codecs stats) vid = None \<longrightarrow>
          displayed (handleStats ext stats p) ''VideoCodecStat'' = Some ''Video codec: '')
     \<and> (InboundAudioStats.codecId (inboundAudioStats stats) = Some aid \<and> aid \<noteq> []
            \<and> Map_get (codecs stats) aid = None \<longrightarrow>
          displayed (handleStats ext stats p) ''AudioCodecStat'' = Some ''Audio codec: '')
     \<and> (InboundVideoStats.codecId (inboundVideoStats stats) = Some vid \<and> vid \<noteq> []
            \<and> Map_get (codecs stats) vid = Some vc \<longrightarrow>
          displayed (handleStats ext stats p) ''VideoCodecStat'' =
            Some (''Video codec: '' @ String_replace ''video/'' [] (mimeType vc)))
     \<and> (InboundAudioStats.codecId (inboundAudioStats stats) = Some aid \<and> aid \<noteq> []
            \<and> Map_get (codecs stats) aid = Some ac \<longrightarrow>
          displayed (handleStats ext stats p) ''AudioCodecStat'' =
            Some (''Audio codec: '' @ String_replace ''audio/'' [] (mimeType ac)))
     \<and> (InboundVideoStats.codecId (inboundVideoStats stats) = None
            \<or> InboundVideoStats.codecId (inboundVideoStats stats) = Some [] \<longrightarrow>
          displayed (handleStats ext stats p) ''VideoCodecStat'' = displayed p ''VideoCodecStat'')
     \<and> (InboundAudioStats.codecId (inboundAudioStats stats) = None
            \<or> InboundAudioStats.codecId (inboundAudioStats stats) = Some [] \<longrightarrow>
          displayed (handleStats ext stats p) ''AudioCodecStat'' = displayed p ''AudioCodecStat'')
     \<and> String_replace pre [] (pre @ rest) = rest
     \<and> (pre \<noteq> [] \<and> (\<forall>a' b'. a @ pre @ rest = a' @ pre @ b' \<longrightarrow> length a \<le> length a') \<longrightarrow>
          String_replace pre [] (a @ pre @ rest) = a @ rest)
     \<and> (pre \<noteq> [] \<and> \<not> (\<exists>a b. s = a @ pre @ b) \<longrightarrow> String_replace pre [] s = s)"
proof -
  note v = displayed_VideoCodecStat [OF assms, of ext stats]
  note a = displayed_AudioCodecStat [OF assms, of ext stats]
  have c1: "InboundVideoStats.codecId (inboundVideoStats stats) = Some vid \<and> vid \<noteq> []
        \<and> Map_get (codecs stats) vid = None \<longrightarrow>
      displayed (handleStats ext stats p) ''VideoCodecStat'' = Some ''Video codec: ''"
    by (simp add: v codecName_def)
  have c2: "InboundAudioStats.codecId (inboundAudioStats stats) = Some aid \<and> aid \<noteq> []
        \<and> Map_get (codecs stats) aid = None \<longrightarrow>
      displayed (handleStats ext stats p) ''AudioCodecStat'' = Some ''Audio codec: ''"
    by (simp add: a codecName_def)
  have c3: "InboundVideoStats.codecId (inboundVideoStats stats) = Some vid \<and> vid \<noteq> []
        \<and> Map_get (codecs stats) vid = Some vc \<longrightarrow>
      displayed (handleStats ext stats p) ''VideoCodecStat'' =
        Some (''Video codec: '' @ String_replace ''video/'' [] (mimeType vc))"
    by (simp add: v codecName_def)
  have c4: "InboundAudioStats.codecId (inboundAudioStats stats) = Some aid \<and> aid \<noteq> []
        \<and> Map_get (codecs stats) aid = Some ac \<longrightarrow>
      displayed (handleStats ext stats p) ''AudioCodecStat'' =
        Some (''Audio codec: '' @ String_replace ''audio/'' [] (mimeType ac))"
    by (simp add: a codecName_def)
  have c5: "InboundVideoStats.codecId (inboundVideoStats stats) = None
        \<or> InboundVideoStats.codecId (inboundVideoStats stats) = Some [] \<longrightarrow>
      displayed (handleStats ext stats p) ''VideoCodecStat'' = displayed p ''VideoCodecStat''"
    by (auto simp: v)
  have c6: "InboundAudioStats.codecId (inboundAudioStats stats) = None
        \<or> InboundAudioStats.codecId (inboundAudioStats stats) = Some [] \<longrightarrow>
      displayed (handleStats ext stats p) ''AudioCodecStat'' = displayed p ''AudioCodecStat''"
    by (auto simp: a)
  have c7: "String_replace pre [] (pre @ rest) = rest"
    using String_replace_prefix [of pre "[]" rest] by simp
  have c8: "pre \<noteq> [] \<and> (\<forall>a' b'. a @ pre @ rest = a' @ pre @ b' \<longrightarrow> length a \<le> length a') \<longrightarrow>
      String_replace pre [] (a @ pre @ rest) = a @ rest"
    using String_replace_first [of pre a rest "[]"] by simp
  have c9: "pre \<noteq> [] \<and> \<not> (\<exists>a b. s = a @ pre @ b) \<longrightarrow> String_replace pre [] s = s"
    using String_replace_none [of pre s "[]"] by simp
  from c1 c2 c3 c4 c5 c6 c7 c8 c9 show ?thesis by (intro conjI)
qed

theorem codec_stat_value_witness:
  "isSectionEnabled (config (StatsPanel_new sessionOn)) SessionStats
   \<and> InboundVideoStats.codecId (inboundVideoStats sample_stats) = Some ''CIT01_96''
   \<and> Map_get (codecs sample_stats) ''CIT01_96'' = None
   \<and> displayed (handleStats sample_externals sample_stats (StatsPanel_new sessionOn))
       ''VideoCodecStat'' = Some ''Video codec: ''
   \<and> Map_get (codecs sample_stats) ''CIT01_111'' = Some \<lparr>mimeType = ''audio/opus''\<rparr>
   \<and> displayed (handleStats sample_externals sample_stats (StatsPanel_new sessionOn))
       ''AudioCodecStat'' = Some ''Audio codec: opus''"
proof -
  have vid: "InboundVideoStats.codecId (inboundVideoStats sample_stats) = Some ''CIT01_96''"
    and aid: "InboundAudioStats.codecId (inboundAudioStats sample_stats) = Some ''CIT01_111''"
    and vnone: "Map_get (codecs sample_stats) ''CIT01_96'' = None"
    and asome: "Map_get (codecs sample_stats) ''CIT01_111'' = Some \<lparr>mimeType = ''audio/opus''\<rparr>"
    by (simp_all add: sample_stats_def Map_get_def)
  have vne: "''CIT01_96'' \<noteq> []" and ane: "''CIT01_111'' \<noteq> []"
    by simp_all
  note all = codec_stat_value [OF sessionOn_enabled, where stats = sample_stats
      and vid = "''CIT01_96''" and aid = "''CIT01_111''" and ext = sample_externals
      and ac = "\<lparr>mimeType = ''audio/opus''\<rparr>"]
  have a: "displayed (handleStats sample_externals sample_stats (StatsPanel_new sessionOn))
      ''VideoCodecStat'' = Some ''Video codec: ''"
    by (rule all [THEN conjunct1, THEN mp]) (intro conjI vid vne vnone)
  have "displayed (handleStats sample_externals sample_stats (StatsPanel_new sessionOn))
      ''AudioCodecStat'' =
      Some (''Audio codec: '' @ String_replace ''audio/'' [] (mimeType \<lparr>mimeType = ''audio/opus''\<rparr>))"
    by (rule all [THEN conjunct2, THEN conjunct2, THEN conjunct2, THEN conjunct1, THEN mp])
       (intro conjI aid ane asome)
  then have b: "displayed (handleStats sample_externals sample_stats (StatsPanel_new sessionOn))
      ''AudioCodecStat'' = Some ''Audio codec: opus''"
    by simp
  show ?thesis using sessionOn_enabled vid vnone a asome b by (intro conjI)
qed

text \<open>
  The mime type \<open>x-video/H264\<close> does not begin with \<open>video/\<close> and still loses it; and a
  \<^verbatim>\<open>codecId\<close> that is present as the empty string makes no entry for VideoCodecStat.
\<close>

theorem codec_prefix_counterexample:
  "displayed (handleStats sample_externals
       (sample_stats\<lparr>codecs := [(''CIT01_96'', \<lparr>mimeType = ''x-video/H264''\<rparr>)]\<rparr>)
       (StatsPanel_new sessionOn)) ''VideoCodecStat'' = Some ''Video codec: x-H264''
   \<and> displayed (handleStats sample_externals
       (sample_stats\<lparr>inboundVideoStats :=
          (inboundVideoStats sample_stats)\<lparr>InboundVideoStats.codecId := Some ''''\<rparr>\<rparr>)
       (StatsPanel_new sessionOn)) ''VideoCodecStat'' = None"
proof -
  have a: "displayed (handleStats sample_externals
       (sample_stats\<lparr>codecs := [(''CIT01_96'', \<lparr>mimeType = ''x-video/H264''\<rparr>)]\<rparr>)
       (StatsPanel_new sessionOn)) ''VideoCodecStat'' = Some ''Video codec: x-H264''"
    by (simp add: displayed_VideoCodecStat [OF sessionOn_enabled] sample_stats_def codecName_def
        Map_get_def)
  have b: "displayed (handleStats sample_externals
       (sample_stats\<lparr>inboundVideoStats :=
          (inboundVideoStats sample_stats)\<lparr>InboundVideoStats.codecId := Some ''''\<rparr>\<rparr>)
       (StatsPanel_new sessionOn)) ''VideoCodecStat'' = None"
    by (simp add: displayed_VideoCodecStat [OF sessionOn_enabled] displayed_new)
  show ?thesis using a b by (intro conjI)
qed

end
